theory Spec2Isabelle
  imports Complex_Main
begin

section \<open>Data model of \<open>integrate_peaks.py\<close>\<close>

text \<open>
  The module holds one class, \<open>Peaks\<close>. Its fields are modelled as a record.
  Python floats are modelled as HOL reals: rounding, overflow and NaN are outside
  the model, and every statement below about a number is a statement of exact
  arithmetic.

  \<^item> \<open>msdata\<close> is a dictionary from a scan number to the list of (m/z, intensity)
    pairs of that scan; \<open>msdata.get\<close> is the application of the map.
  \<^item> \<open>rt_idx\<close> is a dictionary from a scan number to a retention time. The code both
    looks a key up (\<open>rt_idx.get\<close>) and iterates over \<open>rt_idx.items()\<close>, whose order is
    the insertion order, so the dictionary is an association list: \<open>map_of\<close> is the
    look-up and the list itself is \<open>items()\<close>.
  \<^item> \<open>mslvl_idx\<close> is a dictionary from a scan number to the MS level; the code
    subscripts it (\<open>mslvl_idx[i]\<close>), which raises \<open>KeyError\<close> on an absent key.
  \<^item> \<open>id\<close> is the identification table, a data frame whose rows are read by
    \<open>id.loc[index, column]\<close> with \<open>index\<close> ranging over \<open>range(len(id))\<close>; it is a list of
    rows indexed by position. The field is called \<open>id_df\<close> here, after the parameter of
    \<open>associate_id\<close>, since \<open>id\<close> is the identity function of HOL.
\<close>

type_synonym scan_id = int

type_synonym peak = "real \<times> real"

text \<open>
  A sample is the list \<open>[rt, iso, I, mz_value]\<close> that \<open>integrate_isotope_intensity\<close>
  unpacks. The variable \<open>iso\<close> of the source is written \<open>iso'\<close>, since \<open>iso\<close> is a
  constant of HOL.
\<close>

type_synonym sample = "real \<times> int \<times> real \<times> real"

record id_row =
  peptide_mass :: real
  scan :: scan_id
  charge :: real
  pep_id :: string

record peaks =
  msdata :: "scan_id \<rightharpoonup> peak list"
  rt_idx :: "(scan_id \<times> real) list"
  mslvl_idx :: "scan_id \<rightharpoonup> int"
  id_df :: "id_row list"
  iso_to_do :: "int list"
  rt_tolerance :: real
  mass_tolerance :: real
  njobs :: nat
  intensity_over_time :: "sample list"
  isotope_intensities :: "real list"

text \<open>The result of \<open>get_isotopes_from_amrt_wrapper\<close>: \<open>[index, pep_id, m0, m1, ...]\<close>.\<close>

type_synonym result_row = "nat \<times> string \<times> real list"

text \<open>The exceptions the code can raise, as values.\<close>

datatype error =
    AssertionError string
  | ValueError string
  | ZeroDivisionError
  | TypeError
  | KeyError
  | NameError

section \<open>Constructor and setters\<close>

definition init :: "(scan_id \<rightharpoonup> peak list) \<Rightarrow> (scan_id \<times> real) list \<Rightarrow> (scan_id \<rightharpoonup> int) \<Rightarrow> peaks" where
  "init msdata0 rt_idx0 mslvl_idx0 =
     \<lparr> msdata = msdata0, rt_idx = rt_idx0, mslvl_idx = mslvl_idx0,
       id_df = [], iso_to_do = [], rt_tolerance = 30, mass_tolerance = 100 / 10 ^ 6,
       njobs = 10, intensity_over_time = [], isotope_intensities = [] \<rparr>"

definition set_iso_to_do :: "peaks \<Rightarrow> int list \<Rightarrow> peaks" where
  "set_iso_to_do self v = self\<lparr>iso_to_do := v\<rparr>"

definition set_rt_tolerance :: "peaks \<Rightarrow> real \<Rightarrow> peaks" where
  "set_rt_tolerance self v = self\<lparr>rt_tolerance := v\<rparr>"

definition set_mass_tolerance :: "peaks \<Rightarrow> real \<Rightarrow> peaks" where
  "set_mass_tolerance self v = self\<lparr>mass_tolerance := v\<rparr>"

definition associate_id :: "peaks \<Rightarrow> id_row list \<Rightarrow> peaks" where
  "associate_id self v = self\<lparr>id_df := v\<rparr>"

section \<open>\<open>get_isotopes_from_amrt\<close>\<close>

definition proton :: real where
  "proton = 1.007825"

text \<open>
  Line 145, \<open>peptide_prec = (peptide_am + (z * proton)) / z\<close>. The charge is a Python
  float, and a float division by zero raises \<open>ZeroDivisionError\<close>.
\<close>

definition peptide_prec :: "real \<Rightarrow> real \<Rightarrow> error + real" where
  "peptide_prec peptide_am z =
     (if z = 0 then Inl ZeroDivisionError else Inr ((peptide_am + (z * proton)) / z))"

text \<open>
  Lines 150-151, the comprehension over \<open>rt_idx.items()\<close>. The reference retention time
  \<open>peptide_rt\<close> is the result of \<open>rt_idx.get\<close>, which is \<open>None\<close> for an absent key; the
  subtraction \<open>rt - None\<close> raises \<open>TypeError\<close> at the first item. The conjunction is
  evaluated left to right, so \<open>mslvl_idx[i]\<close> is read (and may raise \<open>KeyError\<close>) only
  for an item inside the window.
\<close>

fun nearby_scans ::
  "(scan_id \<times> real) list \<Rightarrow> real option \<Rightarrow> real \<Rightarrow> (scan_id \<rightharpoonup> int) \<Rightarrow> error + (scan_id \<times> real) list"
where
  "nearby_scans [] peptide_rt tol lvl = Inr []"
| "nearby_scans ((i, rt) # items) peptide_rt tol lvl =
     (case peptide_rt of
        None \<Rightarrow> Inl TypeError
      | Some p \<Rightarrow>
          if \<bar>rt - p\<bar> \<le> tol then
            (case lvl i of
               None \<Rightarrow> Inl KeyError
             | Some l \<Rightarrow>
                 (case nearby_scans items peptide_rt tol lvl of
                    Inl e \<Rightarrow> Inl e
                  | Inr ns \<Rightarrow> Inr (if l = 1 then (i, rt) # ns else ns)))
          else nearby_scans items peptide_rt tol lvl)"

text \<open>Line 161. The division is by the charge, which is not zero once line 145 has passed.\<close>

definition peptide_prec_iso_am :: "real \<Rightarrow> int \<Rightarrow> real \<Rightarrow> real" where
  "peptide_prec_iso_am prec iso' z = prec + (real_of_int iso' * proton / z)"

text \<open>Lines 163 and 165.\<close>

definition upper :: "real \<Rightarrow> real \<Rightarrow> real" where
  "upper am mass_tol = am + (am * (mass_tol / 2))"

definition lower :: "real \<Rightarrow> real \<Rightarrow> real" where
  "lower am mass_tol = am - (am * (mass_tol / 2))"

text \<open>Line 167, the sum over the peaks of one scan.\<close>

definition matching_int :: "peak list \<Rightarrow> real \<Rightarrow> real \<Rightarrow> real" where
  "matching_int pks up lo = sum_list [I. (mz_value, I) \<leftarrow> pks, up > mz_value \<and> mz_value > lo]"

text \<open>
  Line 169 reads the name \<open>peptide_prec_isotopomer_am\<close>. The module binds this name
  nowhere (line 161 binds \<open>peptide_prec_iso_am\<close>), so evaluating it raises \<open>NameError\<close>.
\<close>

definition peptide_prec_isotopomer_am :: "error + real" where
  "peptide_prec_isotopomer_am = Inl NameError"

text \<open>
  Lines 157-169, the loop over \<open>iso_to_do\<close> for one nearby scan. \<open>msdata.get\<close> yields
  \<open>None\<close> for a scan without peak list, and iterating over \<open>None\<close> raises \<open>TypeError\<close>.
\<close>

fun iso_loop ::
  "peaks \<Rightarrow> real \<Rightarrow> real \<Rightarrow> scan_id \<Rightarrow> real \<Rightarrow> int list \<Rightarrow> sample list \<Rightarrow> error + sample list"
where
  "iso_loop self prec z nearbyScan_id nearbyScan_rt [] acc = Inr acc"
| "iso_loop self prec z nearbyScan_id nearbyScan_rt (iso' # isos) acc =
     (let am = peptide_prec_iso_am prec iso' z;
          up = upper am (mass_tolerance self);
          lo = lower am (mass_tolerance self)
      in case msdata self nearbyScan_id of
           None \<Rightarrow> Inl TypeError
         | Some pks \<Rightarrow>
             (let m = matching_int pks up lo
              in case peptide_prec_isotopomer_am of
                   Inl e \<Rightarrow> Inl e
                 | Inr mz \<Rightarrow>
                     iso_loop self prec z nearbyScan_id nearbyScan_rt isos
                       (acc @ [(nearbyScan_rt, iso', m, mz)])))"

text \<open>Lines 154-169, the loop over the nearby scans.\<close>

fun scan_loop ::
  "peaks \<Rightarrow> real \<Rightarrow> real \<Rightarrow> (scan_id \<times> real) list \<Rightarrow> sample list \<Rightarrow> error + sample list"
where
  "scan_loop self prec z [] acc = Inr acc"
| "scan_loop self prec z ((nearbyScan_id, nearbyScan_rt) # rest) acc =
     (case iso_loop self prec z nearbyScan_id nearbyScan_rt (iso_to_do self) acc of
        Inl e \<Rightarrow> Inl e
      | Inr acc' \<Rightarrow> scan_loop self prec z rest acc')"

definition get_isotopes_from_amrt :: "peaks \<Rightarrow> real \<Rightarrow> scan_id \<Rightarrow> real \<Rightarrow> error + sample list" where
  "get_isotopes_from_amrt self peptide_am peptide_scan z =
     (let peptide_rt = map_of (rt_idx self) peptide_scan
      in case peptide_prec peptide_am z of
           Inl e \<Rightarrow> Inl e
         | Inr prec \<Rightarrow>
             (case nearby_scans (rt_idx self) peptide_rt (rt_tolerance self) (mslvl_idx self) of
                Inl e \<Rightarrow> Inl e
              | Inr ns \<Rightarrow> scan_loop self prec z ns []))"

section \<open>\<open>integrate_isotope_intensity\<close>\<close>

text \<open>
  \<open>scipy.integrate.trapz(y, x)\<close> is the composite trapezoidal rule of the library: the
  sum of \<open>(x[k+1] - x[k]) * (y[k+1] + y[k]) / 2\<close> over consecutive points, in the order
  given, and 0 for fewer than two points.
\<close>

fun trapz :: "real list \<Rightarrow> real list \<Rightarrow> real" where
  "trapz (y0 # y1 # ys) (x0 # x1 # xs) = (x1 - x0) * (y1 + y0) / 2 + trapz (y1 # ys) (x1 # xs)"
| "trapz ys xs = 0"

text \<open>Line 184.\<close>

definition isotopomer_profile :: "sample list \<Rightarrow> int \<Rightarrow> (real \<times> real) list" where
  "isotopomer_profile tr j = [(rt, I). (rt, iso', I, mz_value) \<leftarrow> tr, iso' = j]"

text \<open>Lines 187-194: column 1 of the frame is the intensity, column 0 the retention time.\<close>

definition iso_area :: "sample list \<Rightarrow> int \<Rightarrow> real" where
  "iso_area tr j =
     (let prof = isotopomer_profile tr j
      in if prof \<noteq> [] then max (trapz (map snd prof) (map fst prof)) 0 else 0)"

text \<open>Lines 182-196, the loop over \<open>iso_to_do\<close> appending to \<open>iso_intensity\<close>.\<close>

fun integrate_loop :: "sample list \<Rightarrow> int list \<Rightarrow> real list \<Rightarrow> real list" where
  "integrate_loop tr [] iso_intensity = iso_intensity"
| "integrate_loop tr (j # js) iso_intensity = integrate_loop tr js (iso_intensity @ [iso_area tr j])"

definition integrate_isotope_intensity :: "peaks \<Rightarrow> real list" where
  "integrate_isotope_intensity self = integrate_loop (intensity_over_time self) (iso_to_do self) []"

section \<open>\<open>get_isotopes_from_amrt_wrapper\<close>\<close>

text \<open>
  The wrapper reads one row of the table, stores the trace in the field
  \<open>intensity_over_time\<close> and integrates it. It returns the result row; the model also
  returns the object as the call leaves it. The message printed for an empty trace goes
  to the standard output and is not part of the model.
\<close>

definition get_isotopes_from_amrt_wrapper :: "peaks \<Rightarrow> nat \<Rightarrow> error + (result_row \<times> peaks)" where
  "get_isotopes_from_amrt_wrapper self index =
     (if index < length (id_df self) then
        (let row = id_df self ! index;
             peptide_mass = peptide_mass row;
             scan_number = scan row;
             charge = charge row
         in case get_isotopes_from_amrt self peptide_mass scan_number charge of
              Inl e \<Rightarrow> Inl e
            | Inr tr \<Rightarrow>
                (let self' = self\<lparr>intensity_over_time := tr\<rparr>
                 in Inr ((index, pep_id row, integrate_isotope_intensity self'), self')))
      else Inl KeyError)"

section \<open>\<open>get_isotopes_from_amrt_multiwrapper\<close>\<close>

text \<open>
  \<open>Pool.imap(f, iterable, chunksize)\<close> cuts the iterable into consecutive chunks of
  \<open>chunksize\<close> items, has a worker run \<open>list(map(f, chunk))\<close> on each chunk, and yields the
  results chunk by chunk in the order of the iterable; the exception of a chunk is
  raised when its turn comes. The bound method is sent along with every chunk, so each
  chunk starts from a copy of the caller's object, and the object is passed on from one
  row to the next inside a chunk.
\<close>

function chunks :: "nat \<Rightarrow> 'a list \<Rightarrow> 'a list list" where
  "chunks n xs = (if xs = [] \<or> n = 0 then [] else take n xs # chunks n (drop n xs))"
  by pat_completeness auto
termination
  by (relation "measure (\<lambda>(n, xs). length xs)") auto

declare chunks.simps [simp del]

fun mapstar :: "('s \<Rightarrow> 'a \<Rightarrow> error + ('b \<times> 's)) \<Rightarrow> 's \<Rightarrow> 'a list \<Rightarrow> error + 'b list" where
  "mapstar f s [] = Inr []"
| "mapstar f s (x # xs) =
     (case f s x of
        Inl e \<Rightarrow> Inl e
      | Inr (y, s') \<Rightarrow>
          (case mapstar f s' xs of
             Inl e \<Rightarrow> Inl e
           | Inr ys \<Rightarrow> Inr (y # ys)))"

fun collect :: "(error + 'b list) list \<Rightarrow> error + 'b list" where
  "collect [] = Inr []"
| "collect (r # rs) =
     (case r of
        Inl e \<Rightarrow> Inl e
      | Inr ys \<Rightarrow>
          (case collect rs of
             Inl e \<Rightarrow> Inl e
           | Inr zs \<Rightarrow> Inr (ys @ zs)))"

definition imap :: "('s \<Rightarrow> 'a \<Rightarrow> error + ('b \<times> 's)) \<Rightarrow> 's \<Rightarrow> 'a list \<Rightarrow> nat \<Rightarrow> error + 'b list" where
  "imap f s xs chunksize = collect (map (mapstar f s) (chunks chunksize xs))"

text \<open>
  The wrapper of the batch. \<open>cpu_count\<close> is the value of \<open>multiprocessing.cpu_count()\<close>.
  The two \<open>assert\<close> statements are taken as enabled (the interpreter's default); a
  failed one raises \<open>AssertionError\<close> with its message. \<open>Pool(processes=n)\<close> raises
  \<open>ValueError\<close> for \<open>n < 1\<close>. The arguments of \<open>tqdm.tqdm\<close> are evaluated before any
  result is collected, and \<open>max\<close> of an empty range raises \<open>ValueError\<close>. The strings
  carried by \<open>ValueError\<close> only tell the two sources apart; their wording is that of the
  interpreter and may differ between its versions. The progress bar is not part of the
  model.
\<close>

definition get_isotopes_from_amrt_multiwrapper ::
  "int \<Rightarrow> peaks \<Rightarrow> int \<Rightarrow> int \<Rightarrow> error + result_row list"
where
  "get_isotopes_from_amrt_multiwrapper cpu_count self num_thread chunk_size =
     (if \<not> num_thread \<ge> cpu_count - 1 then
        Inl (AssertionError ''Number of threads exceeded CPU count'')
      else if \<not> chunk_size > 0 then
        Inl (AssertionError ''Chunk size must be a positive integer'')
      else
        (let loop_count = [0 ..< length (id_df self)];
             chunk_size = max chunk_size 250
         in if num_thread < 1 then
              Inl (ValueError ''Number of processes must be at least 1'')
            else if loop_count = [] then
              Inl (ValueError ''max() arg is an empty sequence'')
            else imap get_isotopes_from_amrt_wrapper self loop_count (nat chunk_size)))"

section \<open>The batch read sequentially\<close>

text \<open>
  A reference for the results of \<open>imap\<close>: the rows one after the other, each from the
  caller's object, the first error ending the run. \<open>row_result\<close> is what the wrapper
  returns to its caller. That \<open>imap\<close> over the wrapper computes exactly this, whatever the
  chunk size, is proved below (\<open>imap_wrapper\<close>).
\<close>

fun map_rows :: "('a \<Rightarrow> error + 'b) \<Rightarrow> 'a list \<Rightarrow> error + 'b list" where
  "map_rows g [] = Inr []"
| "map_rows g (x # xs) =
     (case g x of
        Inl e \<Rightarrow> Inl e
      | Inr y \<Rightarrow> (case map_rows g xs of Inl e \<Rightarrow> Inl e | Inr ys \<Rightarrow> Inr (y # ys)))"

definition row_result :: "peaks \<Rightarrow> nat \<Rightarrow> error + result_row" where
  "row_result self index = map_sum (\<lambda>e. e) fst (get_isotopes_from_amrt_wrapper self index)"

section \<open>Concrete inputs\<close>

text \<open>
  A trace with two samples of offset 0 in ascending retention time, two samples of
  offset 1 in descending retention time, and none of offset 2.
\<close>

definition trace_example :: "sample list" where
  "trace_example = [(10, 0, 5, 500), (12, 0, 7, 500), (10, 1, 4, 501), (8, 1, 6, 501)]"

definition peaks_traced :: peaks where
  "peaks_traced =
     (set_iso_to_do (init Map.empty [] Map.empty) [0, 1, 2])\<lparr>intensity_over_time := trace_example\<rparr>"

text \<open>
  Scan 1 is the MS2 scan of the identification, at retention time 100; scan 2 is an MS1
  scan at 101 with one peak of mass 501.008 and intensity 500. Offsets 0 and 1 are
  requested, the tolerances are the defaults.
\<close>

definition peaks_ms1 :: peaks where
  "peaks_ms1 =
     set_iso_to_do
       (init [2 \<mapsto> [(501.008, 500)]] [(1, 100), (2, 101)] [1 \<mapsto> 2, 2 \<mapsto> 1])
       [0, 1]"


text \<open>
  Scans around the reference scan 1 (retention time 100, tolerance 30): scans 2 and 4 lie
  exactly on the two ends of the window, scans 3 and 5 just outside, scan 6 is inside at
  MS level 2, scan 7 inside at MS level 1. Scan 5 has no MS level.
\<close>

definition peaks_window :: peaks where
  "peaks_window =
     init Map.empty
       [(1, 100), (2, 130), (3, 131), (4, 70), (5, 69), (6, 110), (7, 100)]
       [1 \<mapsto> 2, 2 \<mapsto> 1, 3 \<mapsto> 1, 4 \<mapsto> 1, 6 \<mapsto> 2, 7 \<mapsto> 1]"

text \<open>
  An index with the single MS2 scan 1 and no MS1 scan, so that the trace of a row that
  refers to scan 1 is empty; the table is empty until \<open>associate_id\<close>.
\<close>

definition peaks_base :: peaks where
  "peaks_base = set_iso_to_do (init [1 \<mapsto> []] [(1, 100)] [1 \<mapsto> 2]) [0, 1]"

text \<open>Three rows, the second of which refers to scan 99, which is not indexed.\<close>

definition peaks_missing_scan :: peaks where
  "peaks_missing_scan =
     associate_id peaks_base
       [\<lparr>peptide_mass = 1000, scan = 1, charge = 2, pep_id = ''p1''\<rparr>,
        \<lparr>peptide_mass = 1000, scan = 99, charge = 2, pep_id = ''p2''\<rparr>,
        \<lparr>peptide_mass = 1000, scan = 1, charge = 2, pep_id = ''p3''\<rparr>]"

text \<open>Two rows, the first of charge 0.\<close>

definition peaks_zero_charge :: peaks where
  "peaks_zero_charge =
     associate_id peaks_base
       [\<lparr>peptide_mass = 1000, scan = 1, charge = 0, pep_id = ''q1''\<rparr>,
        \<lparr>peptide_mass = 1000, scan = 1, charge = 2, pep_id = ''q2''\<rparr>]"

definition peaks_one_row :: peaks where
  "peaks_one_row =
     associate_id peaks_base [\<lparr>peptide_mass = 1000, scan = 1, charge = 2, pep_id = ''p1''\<rparr>]"

lemmas example_defs = peaks_base_def init_def set_iso_to_do_def associate_id_def

lemmas wrapper_eval = get_isotopes_from_amrt_wrapper_def get_isotopes_from_amrt_def
  peptide_prec_def integrate_isotope_intensity_def iso_area_def isotopomer_profile_def Let_def

section \<open>Properties of \<open>get_isotopes_from_amrt\<close>\<close>

subsection \<open>The loops never append\<close>

lemma iso_loop_Inr:
  "iso_loop self prec z i rt isos acc = Inr r \<Longrightarrow> isos = [] \<and> r = acc"
  by (cases isos) (auto simp: Let_def peptide_prec_isotopomer_am_def split: option.splits)


lemma scan_loop_Inr: "scan_loop self prec z ns acc = Inr r \<Longrightarrow> r = acc"
proof (induction ns arbitrary: acc)
  case Nil
  then show ?case by simp
next
  case (Cons a ns)
  obtain i rt where a: "a = (i, rt)" by (cases a)
  from Cons.prems a obtain acc' where
    1: "iso_loop self prec z i rt (iso_to_do self) acc = Inr acc'" and
    2: "scan_loop self prec z ns acc' = Inr r"
    by (auto split: sum.splits)
  from iso_loop_Inr [OF 1] Cons.IH [OF 2] show ?case by simp
qed

text \<open>Whatever the input, a trace that is returned is empty.\<close>

lemma trace_never_emits: "get_isotopes_from_amrt self am sc z = Inr tr \<Longrightarrow> tr = []"
  by (auto simp: get_isotopes_from_amrt_def Let_def split: sum.splits dest: scan_loop_Inr)

text \<open>With one nearby scan and one requested offset, the loops end in an exception.\<close>

lemma scan_loop_fails:
  "ns \<noteq> [] \<Longrightarrow> iso_to_do self \<noteq> [] \<Longrightarrow> \<exists>e. scan_loop self prec z ns acc = Inl e"
proof (cases ns)
  case Nil
  assume "ns \<noteq> []" with Nil show ?thesis by simp
next
  case (Cons a rest)
  assume ne: "iso_to_do self \<noteq> []"
  obtain i rt where a: "a = (i, rt)" by (cases a)
  have "\<exists>e. iso_loop self prec z i rt (iso_to_do self) acc = Inl e"
    using ne iso_loop_Inr [of self prec z i rt "iso_to_do self" acc]
    by (cases "iso_loop self prec z i rt (iso_to_do self) acc") auto
  then show ?thesis using Cons a by auto
qed

text \<open>
  C1. The claim: for a row of positive charge whose scan is indexed, the trace holds one
  sample per pair of a nearby MS1 scan and a requested offset. At the input
  \<open>peaks_ms1\<close> with peptide mass 1000, scan 1 and charge 2 the hypotheses hold, there is
  one nearby MS1 scan and there are two requested offsets, so the claim asks for a trace
  of length 2; the code raises \<open>NameError\<close> at the first pair, on the unbound name of
  line 169.
\<close>

theorem trace_raises_NameError:
  "(0::real) < 2
   \<and> map_of (rt_idx peaks_ms1) 1 = Some 100
   \<and> nearby_scans (rt_idx peaks_ms1) (map_of (rt_idx peaks_ms1) 1)
        (rt_tolerance peaks_ms1) (mslvl_idx peaks_ms1) = Inr [(2, 101)]
   \<and> iso_to_do peaks_ms1 = [0, 1]
   \<and> get_isotopes_from_amrt peaks_ms1 1000 1 2 = Inl NameError"
  by (simp add: get_isotopes_from_amrt_def peaks_ms1_def init_def set_iso_to_do_def
      peptide_prec_def peptide_prec_isotopomer_am_def Let_def)

subsection \<open>The mass band\<close>

lemma matching_int_filter:
  "matching_int pks up lo = sum_list (map snd (filter (\<lambda>(m, I). lo < m \<and> m < up) pks))"
  unfolding matching_int_def by (induction pks) (simp_all add: case_prod_beta)

lemma upper_factor: "upper mz tol = mz * (1 + tol / 2)"
  by (simp add: upper_def algebra_simps)

lemma lower_factor: "lower mz tol = mz * (1 - tol / 2)"
  by (simp add: lower_def algebra_simps)

text \<open>
  What line 167 computes, with the bounds of lines 163 and 165: the sum of the
  intensities of the peaks whose mass lies strictly between \<open>mz * (1 - tol/2)\<close> and
  \<open>mz * (1 + tol/2)\<close>; a peak on either bound adds nothing.
\<close>

lemma matching_int_band:
  "matching_int pks (upper mz tol) (lower mz tol)
     = sum_list (map snd (filter (\<lambda>(m, I). mz * (1 - tol / 2) < m \<and> m < mz * (1 + tol / 2)) pks))"
  by (simp add: matching_int_filter upper_factor lower_factor)

lemma matching_int_bounds:
  "matching_int ((mz * (1 + tol / 2), I) # pks) (upper mz tol) (lower mz tol)
     = matching_int pks (upper mz tol) (lower mz tol)"
  "matching_int ((mz * (1 - tol / 2), I) # pks) (upper mz tol) (lower mz tol)
     = matching_int pks (upper mz tol) (lower mz tol)"
  by (simp_all add: matching_int_filter upper_factor lower_factor)


subsection \<open>The retention-time window\<close>

lemma nearby_scans_Inr:
  "nearby_scans items (Some p) tol lvl = Inr ns \<Longrightarrow>
   ns = filter (\<lambda>(i, rt). \<bar>rt - p\<bar> \<le> tol \<and> lvl i = Some 1) items"
proof (induction items arbitrary: ns)
  case Nil
  then show ?case by simp
next
  case (Cons a items)
  obtain i rt where a: "a = (i, rt)" by (cases a)
  show ?case
  proof (cases "\<bar>rt - p\<bar> \<le> tol")
    case True
    with Cons.prems a obtain l ns' where
      l: "lvl i = Some l" and
      r: "nearby_scans items (Some p) tol lvl = Inr ns'" and
      n: "ns = (if l = 1 then (i, rt) # ns' else ns')"
      by (auto split: option.splits sum.splits)
    from Cons.IH [OF r] True l n a show ?thesis by simp
  next
    case False
    with Cons.prems a have "nearby_scans items (Some p) tol lvl = Inr ns" by simp
    from Cons.IH [OF this] False a show ?thesis by simp
  qed
qed

lemma nearby_scans_total:
  "\<forall>(i, rt) \<in> set items. \<bar>rt - p\<bar> \<le> tol \<longrightarrow> lvl i \<noteq> None \<Longrightarrow>
   \<exists>ns. nearby_scans items (Some p) tol lvl = Inr ns"
proof (induction items)
  case Nil
  show ?case by simp
next
  case (Cons a items)
  obtain i rt where a: "a = (i, rt)" by (cases a)
  from Cons.prems have "\<forall>(i, rt) \<in> set items. \<bar>rt - p\<bar> \<le> tol \<longrightarrow> lvl i \<noteq> None"
    by simp
  from Cons.IH [OF this] obtain ns where ih: "nearby_scans items (Some p) tol lvl = Inr ns"
    by blast
  show ?case
  proof (cases "\<bar>rt - p\<bar> \<le> tol")
    case True
    with Cons.prems a obtain l where "lvl i = Some l" by auto
    then show ?thesis using True a ih by simp
  next
    case False
    then show ?thesis using a ih by simp
  qed
qed

text \<open>
  C8. With the reference retention time \<open>p\<close> of the identification's scan, the list of
  nearby scans built at lines 150-151 holds exactly the items of \<open>rt_idx\<close> whose MS level
  is 1 and whose retention time differs from \<open>p\<close> by at most \<open>rt_tolerance\<close>, a
  difference of exactly \<open>rt_tolerance\<close> included; and the list is built whenever every
  scan inside the window has an MS level.
\<close>

theorem nearby_scans_window:
  assumes "map_of (rt_idx self) peptide_scan = Some p"
  shows "(\<forall>ns. nearby_scans (rt_idx self) (map_of (rt_idx self) peptide_scan)
                 (rt_tolerance self) (mslvl_idx self) = Inr ns
            \<longrightarrow> (\<forall>i rt. (i, rt) \<in> set ns \<longleftrightarrow>
                    (i, rt) \<in> set (rt_idx self) \<and> mslvl_idx self i = Some 1
                    \<and> \<bar>rt - p\<bar> \<le> rt_tolerance self))
       \<and> ((\<forall>(i, rt) \<in> set (rt_idx self).
               \<bar>rt - p\<bar> \<le> rt_tolerance self \<longrightarrow> mslvl_idx self i \<noteq> None)
            \<longrightarrow> (\<exists>ns. nearby_scans (rt_idx self) (map_of (rt_idx self) peptide_scan)
                        (rt_tolerance self) (mslvl_idx self) = Inr ns))"
proof -
  have a: "\<And>ns. nearby_scans (rt_idx self) (Some p) (rt_tolerance self) (mslvl_idx self) = Inr ns
        \<Longrightarrow> (\<forall>i rt. (i, rt) \<in> set ns \<longleftrightarrow>
                    (i, rt) \<in> set (rt_idx self) \<and> mslvl_idx self i = Some 1
                    \<and> \<bar>rt - p\<bar> \<le> rt_tolerance self)"
    by (drule nearby_scans_Inr) auto
  show ?thesis
    unfolding assms using a nearby_scans_total [of "rt_idx self" p "rt_tolerance self" "mslvl_idx self"]
    by blast
qed

theorem nearby_scans_window_witness:
  "map_of (rt_idx peaks_window) 1 = Some 100
   \<and> nearby_scans (rt_idx peaks_window) (map_of (rt_idx peaks_window) 1)
        (rt_tolerance peaks_window) (mslvl_idx peaks_window) = Inr [(2, 130), (4, 70), (7, 100)]
   \<and> (2, 130) \<in> set (rt_idx peaks_window) \<and> mslvl_idx peaks_window 2 = Some 1
   \<and> \<bar>130 - 100\<bar> \<le> rt_tolerance peaks_window
   \<and> (3, 131) \<in> set (rt_idx peaks_window) \<and> mslvl_idx peaks_window 3 = Some 1
   \<and> \<not> \<bar>131 - 100\<bar> \<le> rt_tolerance peaks_window"
proof -
  have a: "map_of (rt_idx peaks_window) 1 = Some 100"
    by (simp add: peaks_window_def init_def)
  have b: "\<forall>(i, rt) \<in> set (rt_idx peaks_window).
         \<bar>rt - 100\<bar> \<le> rt_tolerance peaks_window \<longrightarrow> mslvl_idx peaks_window i \<noteq> None"
    by (simp add: peaks_window_def init_def)
  have c: "nearby_scans (rt_idx peaks_window) (map_of (rt_idx peaks_window) 1)
        (rt_tolerance peaks_window) (mslvl_idx peaks_window) = Inr [(2, 130), (4, 70), (7, 100)]"
    by (simp add: peaks_window_def init_def)
  have d: "(2, 130) \<in> set (rt_idx peaks_window) \<and> mslvl_idx peaks_window 2 = Some 1
   \<and> \<bar>130 - 100\<bar> \<le> rt_tolerance peaks_window
   \<and> (3, 131) \<in> set (rt_idx peaks_window) \<and> mslvl_idx peaks_window 3 = Some 1
   \<and> \<not> \<bar>131 - 100\<bar> \<le> rt_tolerance peaks_window"
    by (simp add: peaks_window_def init_def)
  from nearby_scans_window [OF a] a b c d show ?thesis by blast
qed

subsection \<open>The precursor mass-to-charge\<close>

text \<open>What lines 139, 145 and 161 compute.\<close>

lemma peptide_prec_value:
  "z \<noteq> 0 \<Longrightarrow> peptide_prec peptide_am z = Inr ((peptide_am + z * 1.007825) / z)"
  by (simp add: peptide_prec_def proton_def)

lemma peptide_prec_iso_am_value:
  "peptide_prec_iso_am prec iso' z = prec + real_of_int iso' * 1.007825 / z"
  by (simp add: peptide_prec_iso_am_def proton_def)


section \<open>Properties of \<open>integrate_isotope_intensity\<close>\<close>

lemma integrate_loop_eq: "integrate_loop tr js acc = acc @ map (iso_area tr) js"
  by (induction js arbitrary: acc) simp_all

lemma iso_area_nonneg: "0 \<le> iso_area tr j"
  by (simp add: iso_area_def Let_def)

lemma isotopomer_profile_Nil_iff:
  "isotopomer_profile tr j = [] \<longleftrightarrow> (\<forall>s \<in> set tr. fst (snd s) \<noteq> j)"
  by (induction tr) (auto simp: isotopomer_profile_def)

lemma iso_area_empty_trace: "map (iso_area []) js = replicate (length js) 0"
  by (induction js) (simp_all add: iso_area_def isotopomer_profile_def)

lemma integrate_eq_map:
  "integrate_isotope_intensity self = map (iso_area (intensity_over_time self)) (iso_to_do self)"
  by (simp add: integrate_isotope_intensity_def integrate_loop_eq)

text \<open>
  C5. For every trace and every request set, the vector returned by
  \<open>integrate_isotope_intensity\<close> has the length of \<open>iso_to_do\<close>; its k-th element is the
  area of the k-th requested offset (the order of the request set); it is 0 for an offset
  that no sample of the trace carries; and for the empty trace the vector is all zeros.
\<close>

theorem integrate_length_order_zero:
  "length (integrate_isotope_intensity self) = length (iso_to_do self)
   \<and> (\<forall>k < length (iso_to_do self).
        integrate_isotope_intensity self ! k = iso_area (intensity_over_time self) (iso_to_do self ! k))
   \<and> (\<forall>k < length (iso_to_do self).
        (\<forall>s \<in> set (intensity_over_time self). fst (snd s) \<noteq> iso_to_do self ! k)
          \<longrightarrow> integrate_isotope_intensity self ! k = 0)
   \<and> (intensity_over_time self = []
        \<longrightarrow> integrate_isotope_intensity self = replicate (length (iso_to_do self)) 0)"
proof -
  have z: "\<And>j. (\<forall>s \<in> set (intensity_over_time self). fst (snd s) \<noteq> j)
            \<Longrightarrow> iso_area (intensity_over_time self) j = 0"
    using isotopomer_profile_Nil_iff by (simp add: iso_area_def Let_def)
  show ?thesis using integrate_eq_map z iso_area_empty_trace by simp
qed

theorem integrate_length_order_zero_witness:
  "(2::nat) < length (iso_to_do peaks_traced)
   \<and> map (\<lambda>s. fst (snd s)) (intensity_over_time peaks_traced) = [0, 0, 1, 1]
   \<and> iso_to_do peaks_traced ! 2 = 2
   \<and> integrate_isotope_intensity peaks_traced ! 2 = 0
   \<and> length (integrate_isotope_intensity peaks_traced) = 3
   \<and> intensity_over_time (peaks_traced\<lparr>intensity_over_time := []\<rparr>) = []
   \<and> integrate_isotope_intensity (peaks_traced\<lparr>intensity_over_time := []\<rparr>) = [0, 0, 0]"
proof -
  have k: "(2::nat) < length (iso_to_do peaks_traced)"
    by (simp add: peaks_traced_def init_def set_iso_to_do_def)
  have n: "\<forall>s \<in> set (intensity_over_time peaks_traced). fst (snd s) \<noteq> iso_to_do peaks_traced ! 2"
    by (simp add: peaks_traced_def trace_example_def init_def set_iso_to_do_def)
  have l: "length (iso_to_do peaks_traced) = 3"
    by (simp add: peaks_traced_def init_def set_iso_to_do_def)
  have m: "map (\<lambda>s. fst (snd s)) (intensity_over_time peaks_traced) = [0, 0, 1, 1]
           \<and> iso_to_do peaks_traced ! 2 = 2"
    by (simp add: peaks_traced_def trace_example_def init_def set_iso_to_do_def)
  have r: "replicate 3 (0::real) = [0, 0, 0]"
    by (simp add: numeral_3_eq_3)
  from integrate_length_order_zero [of peaks_traced]
  have q: "\<forall>k < length (iso_to_do peaks_traced).
        (\<forall>s \<in> set (intensity_over_time peaks_traced). fst (snd s) \<noteq> iso_to_do peaks_traced ! k)
          \<longrightarrow> integrate_isotope_intensity peaks_traced ! k = 0"
    and len: "length (integrate_isotope_intensity peaks_traced) = length (iso_to_do peaks_traced)"
    by blast+
  from q k n have a: "integrate_isotope_intensity peaks_traced ! 2 = 0"
    by blast
  from integrate_length_order_zero [of "peaks_traced\<lparr>intensity_over_time := []\<rparr>"]
  have "intensity_over_time (peaks_traced\<lparr>intensity_over_time := []\<rparr>) = [] \<longrightarrow>
        integrate_isotope_intensity (peaks_traced\<lparr>intensity_over_time := []\<rparr>)
        = replicate (length (iso_to_do (peaks_traced\<lparr>intensity_over_time := []\<rparr>))) 0"
    by blast
  with l r have b: "integrate_isotope_intensity (peaks_traced\<lparr>intensity_over_time := []\<rparr>) = [0, 0, 0]"
    by simp
  show ?thesis using k m a b len l by simp
qed

text \<open>
  C6. Every element of the vector returned by \<open>integrate_isotope_intensity\<close> is at least
  0, and an offset whose samples have a negative trapezoidal area gets the value 0.
\<close>

theorem integrate_nonneg:
  "(\<forall>x \<in> set (integrate_isotope_intensity self). 0 \<le> x)
   \<and> (\<forall>k < length (iso_to_do self).
        (let prof = isotopomer_profile (intensity_over_time self) (iso_to_do self ! k)
         in prof \<noteq> [] \<and> trapz (map snd prof) (map fst prof) < 0
            \<longrightarrow> integrate_isotope_intensity self ! k = 0))"
proof -
  have a: "\<forall>x \<in> set (integrate_isotope_intensity self). 0 \<le> x"
    using integrate_eq_map iso_area_nonneg by auto
  have b: "\<And>j. isotopomer_profile (intensity_over_time self) j \<noteq> [] \<Longrightarrow>
      trapz (map snd (isotopomer_profile (intensity_over_time self) j))
            (map fst (isotopomer_profile (intensity_over_time self) j)) < 0 \<Longrightarrow>
      iso_area (intensity_over_time self) j = 0"
    by (simp add: iso_area_def Let_def)
  show ?thesis using a b integrate_eq_map by (simp add: Let_def)
qed

theorem integrate_nonneg_witness:
  "(let prof = isotopomer_profile (intensity_over_time peaks_traced) (iso_to_do peaks_traced ! 1)
    in prof \<noteq> [] \<and> trapz (map snd prof) (map fst prof) = - 10)
   \<and> integrate_isotope_intensity peaks_traced ! 1 = 0
   \<and> integrate_isotope_intensity peaks_traced = [12, 0, 0]"
proof -
  have p: "isotopomer_profile (intensity_over_time peaks_traced) (iso_to_do peaks_traced ! 1)
           = [(10, 4), (8, 6)]"
    by (simp add: peaks_traced_def trace_example_def init_def set_iso_to_do_def isotopomer_profile_def)
  have k: "(1::nat) < length (iso_to_do peaks_traced)"
    by (simp add: peaks_traced_def init_def set_iso_to_do_def)
  have v: "integrate_isotope_intensity peaks_traced = [12, 0, 0]"
    by (simp add: peaks_traced_def trace_example_def init_def set_iso_to_do_def
        integrate_isotope_intensity_def iso_area_def isotopomer_profile_def)
  from integrate_nonneg [of peaks_traced] k p v show ?thesis
    by (simp add: Let_def)
qed

section \<open>Properties of the batch\<close>

subsection \<open>The chunked run computes the sequential one\<close>

text \<open>
  The wrapper reads the field \<open>intensity_over_time\<close> only after it has written it, so
  neither its result nor the object it leaves depends on what the field held before.
\<close>

lemma trace_ignores_field:
  "get_isotopes_from_amrt (self\<lparr>intensity_over_time := t\<rparr>) am sc z = get_isotopes_from_amrt self am sc z"
proof -
  have i: "\<And>prec i rt isos acc. iso_loop (self\<lparr>intensity_over_time := t\<rparr>) prec z i rt isos acc
        = iso_loop self prec z i rt isos acc"
    subgoal for prec i rt isos acc
      by (cases isos) (simp_all add: Let_def peptide_prec_isotopomer_am_def split: option.splits)
    done
  have s: "\<And>prec ns acc. scan_loop (self\<lparr>intensity_over_time := t\<rparr>) prec z ns acc
        = scan_loop self prec z ns acc"
    subgoal for prec ns acc
      by (induction ns arbitrary: acc) (auto simp: i split: sum.splits)
    done
  show ?thesis
    by (simp add: get_isotopes_from_amrt_def s split: sum.splits)
qed

lemma wrapper_ignores_field:
  "get_isotopes_from_amrt_wrapper (self\<lparr>intensity_over_time := t\<rparr>) index
     = get_isotopes_from_amrt_wrapper self index"
  by (simp add: get_isotopes_from_amrt_wrapper_def trace_ignores_field Let_def
      integrate_isotope_intensity_def split: sum.splits)

lemma wrapper_state:
  "get_isotopes_from_amrt_wrapper self index = Inr (y, s') \<Longrightarrow>
     \<exists>t. s' = self\<lparr>intensity_over_time := t\<rparr>"
  by (auto simp: get_isotopes_from_amrt_wrapper_def Let_def split: if_splits sum.splits)

lemma mapstar_wrapper:
  "mapstar get_isotopes_from_amrt_wrapper (self\<lparr>intensity_over_time := t\<rparr>) xs
     = map_rows (row_result self) xs"
proof (induction xs arbitrary: t)
  case Nil
  show ?case by simp
next
  case (Cons x xs)
  show ?case
  proof (cases "get_isotopes_from_amrt_wrapper self x")
    case (Inl e)
    then show ?thesis by (simp add: wrapper_ignores_field row_result_def)
  next
    case (Inr r)
    obtain y s' where r: "r = (y, s')" by (cases r)
    from wrapper_state Inr r obtain t' where s': "s' = self\<lparr>intensity_over_time := t'\<rparr>"
      by blast
    show ?thesis using Inr r s' Cons.IH [of t']
      by (simp add: wrapper_ignores_field row_result_def)
  qed
qed

lemma mapstar_wrapper_self:
  "mapstar get_isotopes_from_amrt_wrapper self xs = map_rows (row_result self) xs"
  using mapstar_wrapper [where self = self and t = "intensity_over_time self" and xs = xs] by simp

lemma map_rows_append:
  "map_rows g (xs @ ys) =
     (case map_rows g xs of
        Inl e \<Rightarrow> Inl e
      | Inr a \<Rightarrow> (case map_rows g ys of Inl e \<Rightarrow> Inl e | Inr b \<Rightarrow> Inr (a @ b)))"
  by (induction xs) (auto split: sum.splits)

lemma collect_chunks:
  "0 < n \<Longrightarrow> collect (map (map_rows g) (chunks n xs)) = map_rows g xs"
proof (induction n xs rule: chunks.induct)
  case (1 n xs)
  show ?case
  proof (cases "xs = []")
    case True
    then show ?thesis by (simp add: chunks.simps)
  next
    case False
    with "1.prems" have ih: "collect (map (map_rows g) (chunks n (drop n xs))) = map_rows g (drop n xs)"
      using "1.IH" by simp
    have c: "chunks n xs = take n xs # chunks n (drop n xs)"
      using False "1.prems" by (subst chunks.simps) simp
    have "map_rows g xs = map_rows g (take n xs @ drop n xs)"
      by simp
    also have "\<dots> = collect (map (map_rows g) (chunks n xs))"
      unfolding map_rows_append c using ih by (simp split: sum.splits)
    finally show ?thesis by simp
  qed
qed

lemma imap_wrapper:
  "0 < n \<Longrightarrow> imap get_isotopes_from_amrt_wrapper self xs n = map_rows (row_result self) xs"
proof -
  assume n: "0 < n"
  have "mapstar get_isotopes_from_amrt_wrapper self = map_rows (row_result self)"
    by (rule ext) (rule mapstar_wrapper_self)
  then show ?thesis using collect_chunks [OF n] by (simp add: imap_def)
qed

lemma map_rows_first_error:
  "k < length xs \<Longrightarrow> g (xs ! k) = Inl e \<Longrightarrow> \<forall>j < k. \<exists>y. g (xs ! j) = Inr y \<Longrightarrow>
     map_rows g xs = Inl e"
proof (induction xs arbitrary: k)
  case Nil
  then show ?case by simp
next
  case (Cons x xs)
  show ?case
  proof (cases k)
    case 0
    with Cons.prems show ?thesis by simp
  next
    case (Suc k')
    from Cons.prems Suc obtain y where y: "g x = Inr y" by fastforce
    from Cons.prems Suc have "\<forall>j < k'. \<exists>y. g (xs ! j) = Inr y" by fastforce
    with Cons.prems Suc Cons.IH [of k'] have "map_rows g xs = Inl e" by simp
    with y show ?thesis by simp
  qed
qed

lemma map_rows_all_ok:
  "\<forall>x \<in> set xs. g x = Inr (h x) \<Longrightarrow> map_rows g xs = Inr (map h xs)"
  by (induction xs) simp_all

text \<open>
  When the checks on the worker count and the chunk size pass, the exception of the first
  row that fails is the outcome of the whole batch.
\<close>

lemma multiwrapper_first_failure:
  assumes "cpu_count - 1 \<le> num_thread" and "0 < chunk_size" and "1 \<le> num_thread"
    and "k < length (id_df self)"
    and "get_isotopes_from_amrt_wrapper self k = Inl e"
    and "\<forall>j < k. \<exists>r. get_isotopes_from_amrt_wrapper self j = Inr r"
  shows "get_isotopes_from_amrt_multiwrapper cpu_count self num_thread chunk_size = Inl e"
proof -
  let ?xs = "[0 ..< length (id_df self)]"
  have ne: "?xs \<noteq> []" using assms(4) by auto
  have n: "0 < nat (max chunk_size 250)" by simp
  have k: "k < length ?xs" using assms(4) by simp
  have e: "row_result self (?xs ! k) = Inl e"
    using assms(4,5) by (simp add: row_result_def)
  have ok: "\<forall>j < k. \<exists>y. row_result self (?xs ! j) = Inr y"
  proof (intro allI impI)
    fix j assume j: "j < k"
    with assms(6) obtain r where "get_isotopes_from_amrt_wrapper self j = Inr r" by blast
    then have "row_result self j = Inr (fst r)"
      by (simp add: row_result_def)
    moreover have "?xs ! j = j" using j assms(4) by simp
    ultimately show "\<exists>y. row_result self (?xs ! j) = Inr y"
      by (simp only: sum.inject) blast
  qed
  have "map_rows (row_result self) ?xs = Inl e"
    by (rule map_rows_first_error [OF k e ok])
  with imap_wrapper [OF n] ne assms(1,2,3) show ?thesis
    by (simp add: get_isotopes_from_amrt_multiwrapper_def Let_def)
qed

subsection \<open>A row whose scan is not indexed\<close>

lemma missing_row0:
  "get_isotopes_from_amrt_wrapper peaks_missing_scan 0 = Inr ((0, ''p1'', [0, 0]), peaks_missing_scan)"
  by (simp add: peaks_missing_scan_def example_defs wrapper_eval)

lemma missing_row1: "get_isotopes_from_amrt_wrapper peaks_missing_scan 1 = Inl TypeError"
  by (simp add: peaks_missing_scan_def example_defs wrapper_eval)

lemma missing_row2:
  "get_isotopes_from_amrt_wrapper peaks_missing_scan 2 = Inr ((2, ''p3'', [0, 0]), peaks_missing_scan)"
  by (simp add: peaks_missing_scan_def example_defs wrapper_eval)

text \<open>
  C2, as stated, fails on the table \<open>peaks_missing_scan\<close>: its second row refers to a scan
  without indexed retention time; processing it raises \<open>TypeError\<close>, which is not a
  \<open>LookupError\<close>, and the batch as a whole ends in that \<open>TypeError\<close>, although the first and
  the third row, processed alone, give their result rows.
\<close>

theorem missing_scan_aborts_batch:
  "get_isotopes_from_amrt_wrapper peaks_missing_scan 0 = Inr ((0, ''p1'', [0, 0]), peaks_missing_scan)
   \<and> get_isotopes_from_amrt_wrapper peaks_missing_scan 1 = Inl TypeError
   \<and> get_isotopes_from_amrt_wrapper peaks_missing_scan 2 = Inr ((2, ''p3'', [0, 0]), peaks_missing_scan)
   \<and> get_isotopes_from_amrt_multiwrapper 2 peaks_missing_scan 1 50 = Inl TypeError"
proof -
  have len: "(1::nat) < length (id_df peaks_missing_scan)"
    by (simp add: peaks_missing_scan_def example_defs)
  have ok: "\<forall>j < (1::nat). \<exists>r. get_isotopes_from_amrt_wrapper peaks_missing_scan j = Inr r"
    using missing_row0 by simp
  have "get_isotopes_from_amrt_multiwrapper 2 peaks_missing_scan 1 50 = Inl TypeError"
    by (rule multiwrapper_first_failure [OF _ _ _ len missing_row1 ok]) simp_all
  with missing_row0 missing_row1 missing_row2 show ?thesis by simp
qed

text \<open>With a non-empty index the subtraction at line 151 meets \<open>None\<close>.\<close>

lemma trace_missing_scan:
  assumes "z \<noteq> 0" and "map_of (rt_idx self) peptide_scan = None" and "rt_idx self \<noteq> []"
  shows "get_isotopes_from_amrt self peptide_am peptide_scan z = Inl TypeError"
proof -
  from assms(3) obtain i rt items where "rt_idx self = (i, rt) # items"
    by (cases "rt_idx self") auto
  with assms(1,2) show ?thesis
    by (simp add: get_isotopes_from_amrt_def peptide_prec_def)
qed

text \<open>With an empty index there is no item to subtract from: the trace is empty.\<close>

lemma trace_empty_index:
  "z \<noteq> 0 \<Longrightarrow> rt_idx self = [] \<Longrightarrow> get_isotopes_from_amrt self peptide_am peptide_scan z = Inr []"
  by (simp add: get_isotopes_from_amrt_def peptide_prec_def)

text \<open>
  C2, amended. For a row of charge other than 0 whose scan has no indexed retention time,
  the retention-time index being non-empty, processing the row raises \<open>TypeError\<close>; and
  when the checks of the batch pass and every earlier row succeeds, the batch as a whole
  ends in that \<open>TypeError\<close>, returning no result row.
\<close>

theorem missing_scan_TypeError:
  assumes "k < length (id_df self)"
    and "charge (id_df self ! k) \<noteq> 0"
    and "map_of (rt_idx self) (scan (id_df self ! k)) = None"
    and "rt_idx self \<noteq> []"
  shows "get_isotopes_from_amrt_wrapper self k = Inl TypeError
    \<and> (cpu_count - 1 \<le> num_thread \<and> 0 < chunk_size \<and> 1 \<le> num_thread
        \<and> (\<forall>j < k. \<exists>r. get_isotopes_from_amrt_wrapper self j = Inr r)
       \<longrightarrow> get_isotopes_from_amrt_multiwrapper cpu_count self num_thread chunk_size = Inl TypeError)"
proof -
  have w: "get_isotopes_from_amrt_wrapper self k = Inl TypeError"
    using assms(1) trace_missing_scan [OF assms(2,3,4)]
    by (simp add: get_isotopes_from_amrt_wrapper_def Let_def)
  show ?thesis
    using w multiwrapper_first_failure [OF _ _ _ assms(1) w] by blast
qed

theorem missing_scan_TypeError_witness:
  "(1::nat) < length (id_df peaks_missing_scan)
   \<and> charge (id_df peaks_missing_scan ! 1) \<noteq> 0
   \<and> map_of (rt_idx peaks_missing_scan) (scan (id_df peaks_missing_scan ! 1)) = None
   \<and> rt_idx peaks_missing_scan \<noteq> []
   \<and> (2::int) - 1 \<le> 1 \<and> (0::int) < 50 \<and> (1::int) \<le> 1
   \<and> get_isotopes_from_amrt_wrapper peaks_missing_scan 0
        = Inr ((0, ''p1'', [0, 0]), peaks_missing_scan)
   \<and> get_isotopes_from_amrt_wrapper peaks_missing_scan 1 = Inl TypeError
   \<and> get_isotopes_from_amrt_multiwrapper 2 peaks_missing_scan 1 50 = Inl TypeError"
proof -
  have a: "(1::nat) < length (id_df peaks_missing_scan)"
    and b: "charge (id_df peaks_missing_scan ! 1) \<noteq> 0"
    and c: "map_of (rt_idx peaks_missing_scan) (scan (id_df peaks_missing_scan ! 1)) = None"
    and d: "rt_idx peaks_missing_scan \<noteq> []"
    by (simp_all add: peaks_missing_scan_def example_defs)
  have ok: "\<forall>j < (1::nat). \<exists>r. get_isotopes_from_amrt_wrapper peaks_missing_scan j = Inr r"
    using missing_row0 by simp
  from missing_scan_TypeError [OF a b c d, of 2 1 50] ok a b c d missing_row0 show ?thesis
    by simp
qed

subsection \<open>A row of charge 0\<close>

lemma zero_row0: "get_isotopes_from_amrt_wrapper peaks_zero_charge 0 = Inl ZeroDivisionError"
  by (simp add: peaks_zero_charge_def example_defs wrapper_eval)

lemma zero_row1:
  "get_isotopes_from_amrt_wrapper peaks_zero_charge 1 = Inr ((1, ''q2'', [0, 0]), peaks_zero_charge)"
  by (simp add: peaks_zero_charge_def example_defs wrapper_eval)

text \<open>
  C4, as stated, fails on the table \<open>peaks_zero_charge\<close>: for its first row, of charge 0,
  the division of line 145 is executed and raises \<open>ZeroDivisionError\<close>, and the batch as a
  whole ends in that exception, although the second row, processed alone, gives its
  result row.
\<close>

theorem zero_charge_aborts_batch:
  "get_isotopes_from_amrt peaks_zero_charge 1000 1 0 = Inl ZeroDivisionError
   \<and> get_isotopes_from_amrt_wrapper peaks_zero_charge 0 = Inl ZeroDivisionError
   \<and> get_isotopes_from_amrt_wrapper peaks_zero_charge 1 = Inr ((1, ''q2'', [0, 0]), peaks_zero_charge)
   \<and> get_isotopes_from_amrt_multiwrapper 2 peaks_zero_charge 1 50 = Inl ZeroDivisionError"
proof -
  have len: "(0::nat) < length (id_df peaks_zero_charge)"
    by (simp add: peaks_zero_charge_def example_defs)
  have t: "get_isotopes_from_amrt peaks_zero_charge 1000 1 0 = Inl ZeroDivisionError"
    by (simp add: get_isotopes_from_amrt_def peptide_prec_def)
  have "get_isotopes_from_amrt_multiwrapper 2 peaks_zero_charge 1 50 = Inl ZeroDivisionError"
    by (rule multiwrapper_first_failure [OF _ _ _ len zero_row0]) simp_all
  with t zero_row0 zero_row1 show ?thesis by simp
qed

text \<open>
  C4, amended. For charge 0 the trace raises \<open>ZeroDivisionError\<close>, whatever the other
  arguments and the index; so does the processing of a row of charge 0; and when the
  checks of the batch pass and every earlier row succeeds, the batch as a whole ends in
  that \<open>ZeroDivisionError\<close>, returning no result row.
\<close>

theorem zero_charge_ZeroDivisionError:
  "get_isotopes_from_amrt self peptide_am peptide_scan 0 = Inl ZeroDivisionError
   \<and> (k < length (id_df self) \<and> charge (id_df self ! k) = 0
        \<longrightarrow> get_isotopes_from_amrt_wrapper self k = Inl ZeroDivisionError
          \<and> (cpu_count - 1 \<le> num_thread \<and> 0 < chunk_size \<and> 1 \<le> num_thread
              \<and> (\<forall>j < k. \<exists>r. get_isotopes_from_amrt_wrapper self j = Inr r)
             \<longrightarrow> get_isotopes_from_amrt_multiwrapper cpu_count self num_thread chunk_size
                   = Inl ZeroDivisionError))"
proof -
  have t: "\<And>am sc. get_isotopes_from_amrt self am sc 0 = Inl ZeroDivisionError"
    by (simp add: get_isotopes_from_amrt_def peptide_prec_def)
  have w: "k < length (id_df self) \<Longrightarrow> charge (id_df self ! k) = 0
           \<Longrightarrow> get_isotopes_from_amrt_wrapper self k = Inl ZeroDivisionError"
    using t by (simp add: get_isotopes_from_amrt_wrapper_def Let_def)
  show ?thesis
    using t w multiwrapper_first_failure [of cpu_count num_thread chunk_size k self ZeroDivisionError]
    by blast
qed

theorem zero_charge_ZeroDivisionError_witness:
  "(0::nat) < length (id_df peaks_zero_charge)
   \<and> charge (id_df peaks_zero_charge ! 0) = 0
   \<and> (2::int) - 1 \<le> 1 \<and> (0::int) < 50 \<and> (1::int) \<le> 1
   \<and> get_isotopes_from_amrt_wrapper peaks_zero_charge 0 = Inl ZeroDivisionError
   \<and> get_isotopes_from_amrt_multiwrapper 2 peaks_zero_charge 1 50 = Inl ZeroDivisionError"
proof -
  have a: "(0::nat) < length (id_df peaks_zero_charge)"
    and b: "charge (id_df peaks_zero_charge ! 0) = 0"
    by (simp_all add: peaks_zero_charge_def example_defs)
  from zero_charge_ZeroDivisionError [of peaks_zero_charge 1000 1 0 2 1 50] a b show ?thesis
    by simp
qed

subsection \<open>The check on the worker count\<close>

text \<open>The assertion of line 84 fails for every worker count below \<open>cpu_count - 1\<close>.\<close>

lemma thread_assertion_fails:
  "num_thread < cpu_count - 1 \<Longrightarrow>
   get_isotopes_from_amrt_multiwrapper cpu_count self num_thread chunk_size
     = Inl (AssertionError ''Number of threads exceeded CPU count'')"
  by (simp add: get_isotopes_from_amrt_multiwrapper_def)

lemma one_row0:
  "get_isotopes_from_amrt_wrapper peaks_one_row 0 = Inr ((0, ''p1'', [0, 0]), peaks_one_row)"
  by (simp add: peaks_one_row_def example_defs wrapper_eval)

lemma one_row_batch:
  "cpu_count - 1 \<le> num_thread \<Longrightarrow> 0 < chunk_size \<Longrightarrow> 1 \<le> num_thread \<Longrightarrow>
   get_isotopes_from_amrt_multiwrapper cpu_count peaks_one_row num_thread chunk_size
     = Inr [(0, ''p1'', [0, 0])]"
proof -
  assume a: "cpu_count - 1 \<le> num_thread" "0 < chunk_size" "1 \<le> num_thread"
  have l: "[0 ..< length (id_df peaks_one_row)] = [0]"
    by (simp add: peaks_one_row_def example_defs)
  have n: "0 < nat (max chunk_size 250)" by simp
  have "map_rows (row_result peaks_one_row) [0] = Inr [(0, ''p1'', [0, 0])]"
    using one_row0 by (simp add: row_result_def)
  with a l imap_wrapper [OF n, of peaks_one_row "[0]"] show ?thesis
    by (simp add: get_isotopes_from_amrt_multiwrapper_def Let_def)
qed

text \<open>
  C3. The claim: the batch is refused exactly when the worker count exceeds the available
  parallelism minus one. With 4 processors and the table \<open>peaks_one_row\<close>, the code refuses
  1 worker, which does not exceed 3, with the message that the number of threads exceeds
  the processor count, and it accepts 8 workers, which exceed 3, and returns the result
  row.
\<close>

theorem thread_assertion_inverted:
  "get_isotopes_from_amrt_multiwrapper 4 peaks_one_row 1 50
     = Inl (AssertionError ''Number of threads exceeded CPU count'')
   \<and> get_isotopes_from_amrt_multiwrapper 4 peaks_one_row 8 50 = Inr [(0, ''p1'', [0, 0])]"
  using thread_assertion_fails [of 1 4 peaks_one_row 50] one_row_batch [of 4 8 50]
  by simp

subsection \<open>The empty table\<close>

text \<open>
  C10. With an empty identification table, and worker count and chunk size passing the
  two assertions, the batch never returns a result; with at least one worker (so that the
  pool is created) it raises the \<open>ValueError\<close> of \<open>max\<close> over the empty range of row
  indices.
\<close>

theorem empty_table_raises:
  assumes "id_df self = []" and "cpu_count - 1 \<le> num_thread" and "0 < chunk_size"
  shows "(1 \<le> num_thread \<longrightarrow>
            get_isotopes_from_amrt_multiwrapper cpu_count self num_thread chunk_size
              = Inl (ValueError ''max() arg is an empty sequence''))
         \<and> (\<forall>rows. get_isotopes_from_amrt_multiwrapper cpu_count self num_thread chunk_size \<noteq> Inr rows)"
  using assms by (simp add: get_isotopes_from_amrt_multiwrapper_def Let_def)

theorem empty_table_raises_witness:
  "id_df peaks_base = [] \<and> (2::int) - 1 \<le> 1 \<and> (0::int) < 50 \<and> (1::int) \<le> 1
   \<and> get_isotopes_from_amrt_multiwrapper 2 peaks_base 1 50
        = Inl (ValueError ''max() arg is an empty sequence'')"
proof -
  have e: "id_df peaks_base = []"
    by (simp add: example_defs)
  from empty_table_raises [OF e, of 2 1 50] e show ?thesis
    by simp
qed

end
